theory Spec2Isabelle
  imports Complex_Main "HOL-Library.Sublist"
begin

section \<open>JavaScript strings\<close>

text \<open>
  A JavaScript string is a sequence of UTF-16 code units. The model uses \<^typ>\<open>string\<close>:
  a \<^typ>\<open>char\<close> stands for a code unit in the range U+0000 to U+00FF. In that range the
  characters that \<open>String.prototype.trim\<close> and the numeric-string grammar treat as white
  space or line terminators are TAB, LF, VT, FF, CR, SPACE and NBSP.
\<close>

definition isWhiteSpace :: "char \<Rightarrow> bool" where
  "isWhiteSpace c \<longleftrightarrow>
     c = CHR 0x09 \<or> c = CHR 0x0A \<or> c = CHR 0x0B \<or> c = CHR 0x0C \<or> c = CHR 0x0D \<or>
     c = CHR 0x20 \<or> c = CHR 0xA0"

definition trimStart :: "string \<Rightarrow> string" where
  "trimStart s = dropWhile isWhiteSpace s"

definition trim :: "string \<Rightarrow> string" where
  "trim s = rev (dropWhile isWhiteSpace (rev (dropWhile isWhiteSpace s)))"

text \<open>\<open>s.includes(t)\<close>: \<open>t\<close> occurs in \<open>s\<close> as a contiguous substring.\<close>

fun str_includes :: "string \<Rightarrow> string \<Rightarrow> bool" where
  "str_includes [] t = (t = [])"
| "str_includes (c # cs) t = (prefix t (c # cs) \<or> str_includes cs t)"

text \<open>
  \<open>s.split(sep)\<close> for a non-empty separator: the pieces between the occurrences of
  \<open>sep\<close>, found from left to right without overlap. The result is never empty;
  \<open>"".split(sep)\<close> is \<open>[""]\<close>. (An empty separator, which the program never passes,
  is treated as never matching.)
\<close>

fun js_split :: "string \<Rightarrow> string \<Rightarrow> string list" where
  "js_split sep [] = [[]]"
| "js_split sep (c # cs) =
     (if sep \<noteq> [] \<and> prefix sep (c # cs)
      then [] # js_split sep (drop (length sep) (c # cs))
      else (case js_split sep cs of
              [] \<Rightarrow> [[c]]
            | p # ps \<Rightarrow> (c # p) # ps))"

section \<open>JavaScript numbers\<close>

text \<open>
  A Number is an IEEE 754 binary64 value: NaN, an infinity, or a finite value. A finite
  value is represented by the rational it denotes; the sign of zero is not tracked.
  Every arithmetic result is rounded to the nearest representable value, ties to even,
  by \<open>rd\<close>: the magnitude is scaled to a significand \<open>m\<close> of at most 53 bits at
  the exponent \<open>ex\<close> (not below \<open>-1074\<close>, the subnormal spacing). A magnitude
  \<open>m * 2^ex\<close> of \<open>2^1024\<close> or more becomes infinite; as \<open>m \<le> 2^53\<close> that needs
  \<open>971 \<le> ex\<close>, which the test checks first. A numeric string denotes the Number
  nearest to its exact decimal value.
\<close>

datatype jsnum = NaN | PInf | NInf | Fin rat

text \<open>The number of binary digits of a positive integer.\<close>

function bitlen :: "int \<Rightarrow> int" where
  "bitlen n = (if 0 < n then 1 + bitlen (n div 2) else 0)"
  by pat_completeness auto
termination
  by (relation "measure nat") auto

text \<open>
  \<open>ilog2 a\<close> is the integer \<open>e\<close> with \<open>2^e \<le> a < 2^(e+1)\<close>, for \<open>a > 0\<close>: with
  \<open>a = n / d\<close> it is the difference of the bit lengths of \<open>n\<close> and \<open>d\<close>, or one less.
\<close>

definition ilog2 :: "rat \<Rightarrow> int" where
  "ilog2 a =
     (let (n, d) = quotient_of a;
          k = bitlen n - bitlen d
      in if power_int 2 k \<le> a then k else k - 1)"

definition round_half_even :: "rat \<Rightarrow> int" where
  "round_half_even x =
     (let f = \<lfloor>x\<rfloor>; r = x - of_int f
      in if r < 1 / 2 then f
         else if 1 / 2 < r then f + 1
         else if even f then f else f + 1)"

definition rd :: "rat \<Rightarrow> jsnum" where
  "rd q =
     (if q = 0 then Fin 0
      else let a = \<bar>q\<bar>;
               ex = max (ilog2 a - 52) (- 1074);
               m = round_half_even (a / power_int 2 ex)
           in if (if ex < 971 then False else 2 ^ nat (1024 - ex) \<le> m)
              then (if 0 < q then PInf else NInf)
              else Fin (sgn q * (of_int m * power_int 2 ex)))"

fun js_add :: "jsnum \<Rightarrow> jsnum \<Rightarrow> jsnum" where
  "js_add NaN _ = NaN"
| "js_add _ NaN = NaN"
| "js_add PInf NInf = NaN"
| "js_add NInf PInf = NaN"
| "js_add PInf _ = PInf"
| "js_add _ PInf = PInf"
| "js_add NInf _ = NInf"
| "js_add _ NInf = NInf"
| "js_add (Fin a) (Fin b) = rd (a + b)"

fun js_neg :: "jsnum \<Rightarrow> jsnum" where
  "js_neg NaN = NaN"
| "js_neg PInf = NInf"
| "js_neg NInf = PInf"
| "js_neg (Fin a) = Fin (- a)"

definition js_sub :: "jsnum \<Rightarrow> jsnum \<Rightarrow> jsnum" where
  "js_sub x y = js_add x (js_neg y)"

fun js_mul :: "jsnum \<Rightarrow> jsnum \<Rightarrow> jsnum" where
  "js_mul NaN _ = NaN"
| "js_mul _ NaN = NaN"
| "js_mul (Fin a) (Fin b) = rd (a * b)"
| "js_mul (Fin a) PInf = (if a = 0 then NaN else if 0 < a then PInf else NInf)"
| "js_mul (Fin a) NInf = (if a = 0 then NaN else if 0 < a then NInf else PInf)"
| "js_mul PInf (Fin b) = (if b = 0 then NaN else if 0 < b then PInf else NInf)"
| "js_mul NInf (Fin b) = (if b = 0 then NaN else if 0 < b then NInf else PInf)"
| "js_mul PInf PInf = PInf"
| "js_mul NInf NInf = PInf"
| "js_mul PInf NInf = NInf"
| "js_mul NInf PInf = NInf"

subsection \<open>Numeric strings\<close>

definition isDigit :: "char \<Rightarrow> bool" where
  "isDigit c \<longleftrightarrow> 48 \<le> (of_char c :: int) \<and> (of_char c :: int) \<le> 57"

definition digitVal :: "char \<Rightarrow> int" where
  "digitVal c = of_char c - 48"

text \<open>The value of a digit string in base \<open>b\<close>, most significant digit first.\<close>

definition digitsVal :: "int \<Rightarrow> (char \<Rightarrow> int) \<Rightarrow> string \<Rightarrow> int" where
  "digitsVal b dv ds = foldl (\<lambda>acc c. acc * b + dv c) 0 ds"

text \<open>
  \<open>StrUnsignedDecimalLiteral\<close> without \<open>Infinity\<close>: the longest prefix of the form
  \<open>digits [. digits?] [exponent]\<close> or \<open>. digits [exponent]\<close>, its mathematical value
  and the rest of the string. An exponent belongs to the prefix only if it has a digit.
\<close>

definition scanExponent :: "string \<Rightarrow> int \<times> string" where
  "scanExponent s =
     (case s of
        [] \<Rightarrow> (0, s)
      | c # r \<Rightarrow>
          if c = CHR ''e'' \<or> c = CHR ''E'' then
            (let (neg, r1) = (case r of
                                [] \<Rightarrow> (False, r)
                              | d # r' \<Rightarrow> if d = CHR ''-'' then (True, r')
                                          else if d = CHR ''+'' then (False, r')
                                          else (False, r));
                 ed = takeWhile isDigit r1
             in if ed = [] then (0, s)
                else ((if neg then - digitsVal 10 digitVal ed
                       else digitsVal 10 digitVal ed),
                      dropWhile isDigit r1))
          else (0, s))"

definition scanUnsignedDecimal :: "string \<Rightarrow> (rat \<times> string) option" where
  "scanUnsignedDecimal s =
     (let ip = takeWhile isDigit s;
          r1 = dropWhile isDigit s;
          (fp, r2) = (case r1 of
                        [] \<Rightarrow> ([], r1)
                      | c # r \<Rightarrow> if c = CHR ''.'' \<and> (ip \<noteq> [] \<or> takeWhile isDigit r \<noteq> [])
                                  then (takeWhile isDigit r, dropWhile isDigit r)
                                  else ([], r1))
      in if ip = [] \<and> fp = [] then None
         else (let (e, r3) = scanExponent r2
               in Some (of_int (digitsVal 10 digitVal (ip @ fp)) *
                          power_int 10 (e - int (length fp)),
                        r3)))"

text \<open>
  \<open>StrDecimalLiteral\<close>: an optional sign, then \<open>Infinity\<close> or an unsigned decimal
  literal. Returns the Number value of the longest such prefix and the rest.
\<close>

definition scanDecimal :: "string \<Rightarrow> (jsnum \<times> string) option" where
  "scanDecimal s =
     (let (neg, r) = (case s of
                        [] \<Rightarrow> (False, s)
                      | c # r' \<Rightarrow> if c = CHR ''-'' then (True, r')
                                  else if c = CHR ''+'' then (False, r')
                                  else (False, s))
      in if prefix ''Infinity'' r
         then Some ((if neg then NInf else PInf), drop 8 r)
         else (case scanUnsignedDecimal r of
                 None \<Rightarrow> None
               | Some (q, r') \<Rightarrow> Some (rd (if neg then - q else q), r')))"

text \<open>\<open>parseFloat(s)\<close>: skip leading white space, take the longest decimal-literal prefix.\<close>

definition parseFloat :: "string \<Rightarrow> jsnum" where
  "parseFloat s =
     (case scanDecimal (trimStart s) of
        None \<Rightarrow> NaN
      | Some (v, _) \<Rightarrow> v)"

text \<open>\<open>0x\<close>, \<open>0o\<close> and \<open>0b\<close> literals, which the unary plus accepts without a sign.\<close>

definition hexVal :: "char \<Rightarrow> int option" where
  "hexVal c =
     (if isDigit c then Some (of_char c - 48)
      else if 97 \<le> (of_char c :: int) \<and> (of_char c :: int) \<le> 102 then Some (of_char c - 87)
      else if 65 \<le> (of_char c :: int) \<and> (of_char c :: int) \<le> 70 then Some (of_char c - 55)
      else None)"

definition radixDigits :: "int \<Rightarrow> string \<Rightarrow> rat option" where
  "radixDigits b ds =
     (if ds \<noteq> [] \<and> list_all (\<lambda>c. case hexVal c of None \<Rightarrow> False | Some v \<Rightarrow> v < b) ds
      then Some (of_int (digitsVal b (\<lambda>c. the (hexVal c)) ds))
      else None)"

definition nonDecimalLiteral :: "string \<Rightarrow> rat option" where
  "nonDecimalLiteral s =
     (case s of
        z # x # ds \<Rightarrow>
          if z \<noteq> CHR ''0'' then None
          else if x = CHR ''x'' \<or> x = CHR ''X'' then radixDigits 16 ds
          else if x = CHR ''o'' \<or> x = CHR ''O'' then radixDigits 8 ds
          else if x = CHR ''b'' \<or> x = CHR ''B'' then radixDigits 2 ds
          else None
      | _ \<Rightarrow> None)"

text \<open>
  The unary plus on a string (\<open>StringToNumber\<close>): white space is trimmed on both sides;
  the empty string is \<open>0\<close>; otherwise the whole string must be a numeric literal, or the
  result is \<open>NaN\<close>.
\<close>

definition toNumber :: "string \<Rightarrow> jsnum" where
  "toNumber s =
     (let t = trim s
      in if t = [] then Fin 0
         else (case nonDecimalLiteral t of
                 Some q \<Rightarrow> rd q
               | None \<Rightarrow>
                   (case scanDecimal t of
                      None \<Rightarrow> NaN
                    | Some (v, r) \<Rightarrow> if r = [] then v else NaN)))"

section \<open>The Time Parser\<close>

definition timeToSeconds :: "string \<Rightarrow> jsnum" where
  "timeToSeconds timeString =
     (case js_split '':'' timeString of
        [h, m, s] \<Rightarrow>
          js_add (js_add (js_mul (toNumber h) (Fin 3600)) (js_mul (toNumber m) (Fin 60)))
                 (parseFloat s)
      | [m, s] \<Rightarrow> js_add (js_mul (toNumber m) (Fin 60)) (parseFloat s)
      | _ \<Rightarrow> parseFloat timeString)"

section \<open>The Cue Parser\<close>

record TranscriptItem =
  "text" :: string
  start :: jsnum
  duration :: jsnum

text \<open>The timing-line separator \<open>' --> '\<close> and the line feed.\<close>

definition arrow :: string where
  "arrow = '' --> ''"

definition LF :: char where
  "LF = CHR 0x0A"

text \<open>
  \<open>s.replace(/<[^>]*>/g, '')\<close>: scanning from the left, a \<open><\<close> that has a \<open>>\<close>
  somewhere after it is deleted together with everything up to and including the first
  such \<open>>\<close>; the scan resumes behind it. A \<open><\<close> with no \<open>>\<close> after it stays.
\<close>

function stripTags :: "string \<Rightarrow> string" where
  "stripTags [] = []"
| "stripTags (c # cs) =
     (if c = CHR ''<'' \<and> CHR ''>'' \<in> set cs
      then stripTags (tl (dropWhile (\<lambda>d. d \<noteq> CHR ''>'') cs))
      else c # stripTags cs)"
  by pat_completeness auto
termination
proof (relation "measure length")
  show "wf (measure length)" by simp
next
  fix c :: char and cs :: string
  have "length (dropWhile (\<lambda>d. d \<noteq> CHR ''>'') cs) \<le> length cs"
    by (rule length_dropWhile_le)
  then show "(tl (dropWhile (\<lambda>d. d \<noteq> CHR ''>'') cs), c # cs) \<in> measure length"
    by simp
next
  fix c :: char and cs :: string
  show "(cs, c # cs) \<in> measure length" by simp
qed

text \<open>
  \<open>+x.toFixed(3)\<close>. \<open>toFixed\<close> prints a non-finite \<open>x\<close> by name and a magnitude of
  \<open>10^21\<close> or more in the shortest form that reads back as \<open>x\<close>; the unary plus reads
  either back as \<open>x\<close>. Otherwise \<open>toFixed\<close> prints \<open>n / 1000\<close> with three decimals
  for the integer \<open>n\<close> nearest to \<open>1000 * |x|\<close> (the larger one on a tie), with the sign
  of \<open>x\<close>, and the unary plus rounds that decimal to a Number.
\<close>

fun roundFixed3 :: "jsnum \<Rightarrow> jsnum" where
  "roundFixed3 NaN = NaN"
| "roundFixed3 PInf = PInf"
| "roundFixed3 NInf = NInf"
| "roundFixed3 (Fin q) =
     (if 10 ^ 21 \<le> \<bar>q\<bar> then Fin q
      else let n = \<lfloor>\<bar>q\<bar> * 1000 + 1 / 2\<rfloor>
           in rd (if q < 0 then - (of_int n / 1000) else of_int n / 1000))"

text \<open>
  \<open>const [startTime, endTime] = line.split(' --> ')\<close>: the first two pieces of the
  split. A line that contains the separator always has them (\<open>timingFields_Some\<close>
  below), so \<open>endTime\<close> is never \<open>undefined\<close> in the parser.
\<close>

definition timingFields :: "string \<Rightarrow> (string \<times> string) option" where
  "timingFields line =
     (case js_split arrow line of
        startTime # endTime # _ \<Rightarrow> Some (startTime, endTime)
      | _ \<Rightarrow> None)"

text \<open>The \<open>if (text.trim()) transcript.push(...)\<close> at the end of a cue.\<close>

definition pushCue :: "jsnum \<Rightarrow> jsnum \<Rightarrow> string \<Rightarrow> TranscriptItem list" where
  "pushCue start' duration' text' =
     (if trim text' \<noteq> []
      then [\<lparr>text = trim text', start = roundFixed3 start', duration = roundFixed3 duration'\<rparr>]
      else [])"

text \<open>
  The two nested loops over the lines. \<open>scanLines\<close> is the outer \<open>for\<close> loop at the
  line \<open>lines[i]\<close>; \<open>accumulateCue\<close> is the inner \<open>while\<close> loop, with the cue's start,
  duration and the text gathered so far. When the inner loop stops at a line, the
  \<open>i--\<close> and the \<open>i++\<close> of the outer loop make the outer loop look at that same line.
\<close>

fun scanLines :: "string list \<Rightarrow> TranscriptItem list"
  and accumulateCue :: "jsnum \<Rightarrow> jsnum \<Rightarrow> string \<Rightarrow> string list \<Rightarrow> TranscriptItem list"
where
  "scanLines [] = []"
| "scanLines (l # ls) =
     (let line = trim l
      in if str_includes line arrow
         then (case timingFields line of
                 Some (startTime, endTime) \<Rightarrow>
                   (let start' = timeToSeconds startTime;
                        end' = timeToSeconds endTime;
                        duration' = js_sub end' start'
                    in accumulateCue start' duration' [] ls)
               | None \<Rightarrow> [])
         else scanLines ls)"
| "accumulateCue start' duration' text' [] = pushCue start' duration' text'"
| "accumulateCue start' duration' text' (l # ls) =
     (if trim l \<noteq> [] \<and> \<not> str_includes l arrow
      then (let clean = trim (stripTags l)
            in accumulateCue start' duration'
                 (if clean \<noteq> [] then text' @ clean @ '' '' else text') ls)
      else pushCue start' duration' text' @ scanLines (l # ls))"

definition parseTranscriptContent :: "string \<Rightarrow> TranscriptItem list" where
  "parseTranscriptContent content = scanLines (js_split [LF] content)"

section \<open>The Language Matcher\<close>

text \<open>
  A track map is a \<open>Record<string, any[]>\<close> read from JSON (or the literal \<open>{}\<close>): its
  own keys in the order \<open>Object.keys\<close> enumerates them, each with its list of track
  descriptors, which the program never inspects.
\<close>

type_synonym 'a TrackMap = "(string \<times> 'a list) list"

text \<open>
  \<open>m[k]\<close> reads an own property or, when there is none, a member that every plain
  object inherits from \<open>Object.prototype\<close>. The inherited members are listed with their
  \<open>length\<close> property: they are functions, whose \<open>length\<close> is the number of their
  parameters, except \<open>__proto__\<close>, which reads as the prototype object and has no
  \<open>length\<close>. All of them are truthy.
\<close>

definition objectPrototype :: "(string \<times> nat option) list" where
  "objectPrototype =
     [(''constructor'', Some 1),
      (''hasOwnProperty'', Some 1),
      (''isPrototypeOf'', Some 1),
      (''propertyIsEnumerable'', Some 1),
      (''toLocaleString'', Some 0),
      (''toString'', Some 0),
      (''valueOf'', Some 0),
      (''__defineGetter__'', Some 2),
      (''__defineSetter__'', Some 2),
      (''__lookupGetter__'', Some 1),
      (''__lookupSetter__'', Some 1),
      (''__proto__'', None)]"

datatype 'a member = Tracks "'a list" | Inherited string

definition getMember :: "'a TrackMap \<Rightarrow> string \<Rightarrow> 'a member option" where
  "getMember m k =
     (case map_of m k of
        Some t \<Rightarrow> Some (Tracks t)
      | None \<Rightarrow>
          (case map_of objectPrototype k of
             Some _ \<Rightarrow> Some (Inherited k)
           | None \<Rightarrow> None))"

text \<open>\<open>x.length\<close>, with \<open>None\<close> for \<open>undefined\<close>.\<close>

definition memberLength :: "'a member \<Rightarrow> nat option" where
  "memberLength x =
     (case x of
        Tracks t \<Rightarrow> Some (length t)
      | Inherited k \<Rightarrow> (case map_of objectPrototype k of Some l \<Rightarrow> l | None \<Rightarrow> None))"

record 'a Selection =
  selectedSubtitle :: "'a member option"
  isManualSubtitle :: bool

text \<open>\<open>m[k]?.length\<close> as a condition: \<open>m[k]\<close> is there and its length is not zero.\<close>

definition hasLength :: "'a TrackMap \<Rightarrow> string \<Rightarrow> bool" where
  "hasLength m k =
     (case getMember m k of
        None \<Rightarrow> False
      | Some x \<Rightarrow> (case memberLength x of None \<Rightarrow> False | Some n \<Rightarrow> 0 < n))"

text \<open>
  \<open>{ selectedSubtitle: subtitles[langVar] || autoCaptions[langVar],
  isManualSubtitle: !!subtitles[langVar] }\<close>; an array is truthy even when empty.
\<close>

definition eitherTrack :: "'a TrackMap \<Rightarrow> 'a TrackMap \<Rightarrow> string \<Rightarrow> 'a Selection" where
  "eitherTrack subtitles autoCaptions langVar =
     \<lparr>selectedSubtitle = (case getMember subtitles langVar of
                            Some x \<Rightarrow> Some x
                          | None \<Rightarrow> getMember autoCaptions langVar),
      isManualSubtitle = (getMember subtitles langVar \<noteq> None)\<rparr>"

definition langVariants :: "string \<Rightarrow> string list" where
  "langVariants lang = [lang, lang @ ''_US'', lang @ ''-US'', lang @ ''.US'']"

text \<open>The first loop; \<open>None\<close> when it ends without a \<open>return\<close>.\<close>

fun firstPass :: "'a TrackMap \<Rightarrow> 'a TrackMap \<Rightarrow> bool \<Rightarrow> string list \<Rightarrow> 'a Selection option" where
  "firstPass subtitles autoCaptions preferManual [] = None"
| "firstPass subtitles autoCaptions preferManual (langVar # rest) =
     (if preferManual \<and> hasLength subtitles langVar
      then Some \<lparr>selectedSubtitle = getMember subtitles langVar, isManualSubtitle = True\<rparr>
      else if \<not> preferManual \<and> (hasLength subtitles langVar \<or> hasLength autoCaptions langVar)
      then Some (eitherTrack subtitles autoCaptions langVar)
      else firstPass subtitles autoCaptions preferManual rest)"

text \<open>The fallback loop.\<close>

fun secondPass :: "'a TrackMap \<Rightarrow> 'a TrackMap \<Rightarrow> string list \<Rightarrow> 'a Selection option" where
  "secondPass subtitles autoCaptions [] = None"
| "secondPass subtitles autoCaptions (langVar # rest) =
     (if hasLength subtitles langVar \<or> hasLength autoCaptions langVar
      then Some (eitherTrack subtitles autoCaptions langVar)
      else secondPass subtitles autoCaptions rest)"

definition findBestSubtitle ::
  "'a TrackMap \<Rightarrow> 'a TrackMap \<Rightarrow> string \<Rightarrow> bool \<Rightarrow> 'a Selection" where
  "findBestSubtitle subtitles autoCaptions lang preferManual =
     (case firstPass subtitles autoCaptions preferManual (langVariants lang) of
        Some r \<Rightarrow> r
      | None \<Rightarrow>
          (case secondPass subtitles autoCaptions (langVariants lang) of
             Some r \<Rightarrow> r
           | None \<Rightarrow> \<lparr>selectedSubtitle = None, isManualSubtitle = False\<rparr>))"

text \<open>
  The selection as the specification words it, to compare with the code: the variant
  chosen and whether it is manual. A map has a non-empty entry for a variant when the
  variant is one of its keys and the list stored there is not empty. Pass 1 respects the
  preference, pass 2 does not; in both, a variant counts when a map has a non-empty entry
  for it, and it is manual when the manual map has one. The specification's track maps
  hold non-empty lists only (\<open>wellFormed\<close>).
\<close>

definition hasNonEmptyEntry :: "'a TrackMap \<Rightarrow> string \<Rightarrow> bool" where
  "hasNonEmptyEntry m k = (case map_of m k of None \<Rightarrow> False | Some t \<Rightarrow> t \<noteq> [])"

definition specPass1 :: "'a TrackMap \<Rightarrow> 'a TrackMap \<Rightarrow> bool \<Rightarrow> string \<Rightarrow> bool" where
  "specPass1 manualTracks autoTracks preferManual v =
     (if preferManual then hasNonEmptyEntry manualTracks v
      else hasNonEmptyEntry manualTracks v \<or> hasNonEmptyEntry autoTracks v)"

definition specPass2 :: "'a TrackMap \<Rightarrow> 'a TrackMap \<Rightarrow> string \<Rightarrow> bool" where
  "specPass2 manualTracks autoTracks v =
     (hasNonEmptyEntry manualTracks v \<or> hasNonEmptyEntry autoTracks v)"

definition selectTrack_spec ::
  "'a TrackMap \<Rightarrow> 'a TrackMap \<Rightarrow> string \<Rightarrow> bool \<Rightarrow> (string \<times> bool) option" where
  "selectTrack_spec manualTracks autoTracks lang preferManual =
     (let variants = [lang, lang @ ''_US'', lang @ ''-US'', lang @ ''.US'']
      in case find (specPass1 manualTracks autoTracks preferManual) variants of
           Some v \<Rightarrow> Some (v, hasNonEmptyEntry manualTracks v)
         | None \<Rightarrow>
             (case find (specPass2 manualTracks autoTracks) variants of
                Some v \<Rightarrow> Some (v, hasNonEmptyEntry manualTracks v)
              | None \<Rightarrow> None))"

definition wellFormed :: "'a TrackMap \<Rightarrow> bool" where
  "wellFormed m = list_all (\<lambda>(k, t). t \<noteq> []) m"

section \<open>The Identifier Normalizer\<close>

definition normalizeVideoUrl :: "string \<Rightarrow> string" where
  "normalizeVideoUrl videoId =
     (if str_includes videoId ''youtube.com'' \<or> str_includes videoId ''youtu.be''
      then videoId
      else ''https://www.youtube.com/watch?v='' @ videoId)"

text \<open>The character class \<open>[a-zA-Z0-9_-]\<close>.\<close>

definition idChar :: "char \<Rightarrow> bool" where
  "idChar c \<longleftrightarrow>
     (97 \<le> (of_char c :: int) \<and> (of_char c :: int) \<le> 122) \<or>
     (65 \<le> (of_char c :: int) \<and> (of_char c :: int) \<le> 90) \<or>
     (48 \<le> (of_char c :: int) \<and> (of_char c :: int) \<le> 57) \<or>
     c = CHR ''_'' \<or> c = CHR ''-''"

text \<open>
  One alternative of \<open>/(?:youtube\.com\/watch\?v=|youtu\.be\/)([a-zA-Z0-9_-]+)/\<close> tried at
  the start of \<open>s\<close>: the literal, then the longest non-empty run of identifier
  characters, which is the capture group.
\<close>

definition matchAfter :: "string \<Rightarrow> string \<Rightarrow> string option" where
  "matchAfter lit s =
     (if prefix lit s
      then (let run = takeWhile idChar (drop (length lit) s)
            in if run \<noteq> [] then Some run else None)
      else None)"

definition matchHere :: "string \<Rightarrow> string option" where
  "matchHere s =
     (case matchAfter ''youtube.com/watch?v='' s of
        Some run \<Rightarrow> Some run
      | None \<Rightarrow> matchAfter ''youtu.be/'' s)"

text \<open>\<open>videoInput.match(...)\<close>: the match at the leftmost position that has one.\<close>

fun matchFirst :: "string \<Rightarrow> string option" where
  "matchFirst [] = None"
| "matchFirst (c # cs) =
     (case matchHere (c # cs) of
        Some run \<Rightarrow> Some run
      | None \<Rightarrow> matchFirst cs)"

definition extractVideoId :: "string \<Rightarrow> string" where
  "extractVideoId videoInput =
     (if str_includes videoInput ''youtube.com'' \<or> str_includes videoInput ''youtu.be''
      then (case matchFirst videoInput of
              Some run \<Rightarrow> run
            | None \<Rightarrow> videoInput)
      else videoInput)"

section \<open>The operation\<close>

text \<open>\<open>xs.join(sep)\<close>.\<close>

fun js_join :: "string \<Rightarrow> string list \<Rightarrow> string" where
  "js_join sep [] = []"
| "js_join sep [x] = x"
| "js_join sep (x # y # ys) = x @ sep @ js_join sep (y # ys)"

definition getAvailableLanguages :: "'a TrackMap \<Rightarrow> 'a TrackMap \<Rightarrow> string" where
  "getAvailableLanguages subtitles autoCaptions =
     (let allLangs = map fst subtitles @ map fst autoCaptions
      in if allLangs \<noteq> [] then js_join '', '' allLangs else ''none'')"

text \<open>
  The node parameters of one input item, and the metadata the downloader prints. The
  descriptive fields of the metadata (title, duration, uploader and so on) are only
  copied to the output; they are kept together as \<open>details\<close>.
\<close>

record params =
  param_videoId :: string
  param_lang :: string
  param_preferManual :: bool
  param_outputFormat :: string
  param_includeMetadata :: bool
  param_binaryPath :: string
  param_authMethod :: string
  param_cookieString :: string
  param_cookieFile :: string

record ('a, 'm) VideoMetadata =
  subtitles :: "'a TrackMap option"
  automatic_captions :: "'a TrackMap option"
  details :: 'm

text \<open>
  What lies outside the program: \<open>execAsync\<close> runs a command and gives its standard
  output or fails with a message; \<open>jsonParse\<close> is \<open>JSON.parse\<close> to a metadata object;
  \<open>readFile\<close> fails for a missing file; \<open>tmpName prefix i\<close> is the path
  \<open>join(tmpdir(), prefix-Date.now()-i)\<close>; \<open>continueOnFail\<close> is the host's setting.
  Every call that touches the outside is recorded as an event.
\<close>

record ('a, 'm) world =
  execAsync :: "string \<Rightarrow> string + string"
  jsonParse :: "string \<Rightarrow> string + ('a, 'm) VideoMetadata"
  readFile :: "string \<Rightarrow> string option"
  tmpName :: "string \<Rightarrow> nat \<Rightarrow> string"
  continueOnFail :: bool

datatype event = Exec string | WriteFile string string | ReadFile string | Unlink string

record 'm Result =
  youtubeId :: string
  videoUrl :: string
  language :: string
  subtitleType :: string
  transcriptLength :: nat
  transcript :: "TranscriptItem list option"
  transcriptText :: "string option"
  metadata :: "'m option"

text \<open>An element of \<open>returnData\<close>: a result, or the error record of a failed item.\<close>

datatype 'm nodeData = Json "'m Result" | ErrorJson string string

text \<open>What one pass of the loop body does: it pushes an output, or throws.\<close>

datatype 'm outcome = Pushed "'m nodeData" | Thrown string

definition dq :: string where
  "dq = [CHR 0x22]"

definition cookieOption :: "string \<Rightarrow> string" where
  "cookieOption cookieFilePath =
     (if cookieFilePath \<noteq> [] then '' --cookies '' @ dq @ cookieFilePath @ dq else [])"

text \<open>A thrown \<open>NodeOperationError\<close> is \<open>Inl\<close> of its message.\<close>

definition getVideoMetadata ::
  "('a, 'm) world \<Rightarrow> string \<Rightarrow> string \<Rightarrow> string \<Rightarrow> (string + ('a, 'm) VideoMetadata) \<times> event list" where
  "getVideoMetadata w binaryPath cookieFilePath url =
     (let cmd = binaryPath @ '' --dump-json --skip-download'' @ cookieOption cookieFilePath @
                '' '' @ dq @ url @ dq
      in ((case execAsync w cmd of
             Inl msg \<Rightarrow> Inl (''Failed to fetch video metadata: '' @ msg)
           | Inr stdout \<Rightarrow>
               (case jsonParse w stdout of
                  Inl msg \<Rightarrow> Inl (''Failed to fetch video metadata: '' @ msg)
                | Inr info \<Rightarrow> Inr info)),
          [Exec cmd]))"

text \<open>The loop over \<open>possibleFiles\<close>: the content and the name of the first file read.\<close>

fun readFirst :: "('a, 'm) world \<Rightarrow> string list \<Rightarrow> (string \<times> string) \<times> event list" where
  "readFirst w [] = (([], []), [])"
| "readFirst w (file # files) =
     (case readFile w file of
        Some content \<Rightarrow> ((content, file), [ReadFile file])
      | None \<Rightarrow> (let (r, ev) = readFirst w files in (r, ReadFile file # ev)))"

definition downloadAndParseTranscript ::
  "('a, 'm) world \<Rightarrow> string \<Rightarrow> string \<Rightarrow> string \<Rightarrow> string \<Rightarrow> nat \<Rightarrow> bool \<Rightarrow>
     (string + TranscriptItem list) \<times> event list" where
  "downloadAndParseTranscript w binaryPath cookieFilePath url lang itemIndex isManual =
     (let outputPath = tmpName w ''transcript'' itemIndex;
          flag = (if isManual then ''write-subs'' else ''write-auto-subs'');
          cmd = binaryPath @ '' --'' @ flag @ '' --sub-lang '' @ lang @
                '' --skip-download --output '' @ dq @ outputPath @ ''.%(ext)s'' @ dq @
                cookieOption cookieFilePath @ '' '' @ dq @ url @ dq
      in case execAsync w cmd of
           Inl msg \<Rightarrow> (Inl (''Failed to download transcript: '' @ msg), [Exec cmd])
         | Inr _ \<Rightarrow>
             (let possibleFiles =
                    [outputPath @ ''.'' @ lang @ ''.vtt'', outputPath @ ''.'' @ lang @ ''.srt'',
                     outputPath @ ''.'' @ lang @ ''_US.vtt'', outputPath @ ''.'' @ lang @ ''_US.srt'',
                     outputPath @ ''.'' @ lang @ ''-US.vtt'', outputPath @ ''.'' @ lang @ ''-US.srt''];
                  ((transcriptContent, usedFile), ev) = readFirst w possibleFiles
              in if transcriptContent = []
                 then (Inl (''Could not read transcript file for language '' @ dq @ lang @ dq),
                       Exec cmd # ev)
                 else (Inr (parseTranscriptContent transcriptContent),
                       Exec cmd # ev @ (if usedFile \<noteq> [] then [Unlink usedFile] else []))))"

definition noTranscriptMessage :: "string \<Rightarrow> 'a TrackMap \<Rightarrow> 'a TrackMap \<Rightarrow> string" where
  "noTranscriptMessage lang subs autoCaptions =
     ''No transcript found for this video with language '' @ dq @ lang @ dq @
     ''. Available languages: '' @ getAvailableLanguages subs autoCaptions"

text \<open>
  The \<open>try\<close> block of one item: what it returns or throws, the cookie file path at that
  moment (the \<open>finally\<close> block needs it), and the events so far. The metadata object is
  fetched once, whether or not metadata is to be included.
\<close>

definition tryBlock ::
  "('a, 'm) world \<Rightarrow> params \<Rightarrow> nat \<Rightarrow> (string + 'm Result) \<times> string \<times> event list" where
  "tryBlock w p itemIndex =
     (let lang = (if param_lang p = [] then ''en'' else param_lang p)
      in if trim (param_videoId p) = []
         then (Inl ''The video ID/URL parameter is empty.'', [], [])
         else
          (let (cookieFilePath, ev1) =
                 (if param_authMethod p = ''cookieString''
                  then (if trim (param_cookieString p) \<noteq> []
                        then (let f = tmpName w ''yt-cookies'' itemIndex @ ''.txt''
                              in (f, [WriteFile f (''# Netscape HTTP Cookie File'' @ [LF] @
                                                   param_cookieString p)]))
                        else ([], []))
                  else if param_authMethod p = ''cookieFile'' then (param_cookieFile p, [])
                  else ([], []));
               url = normalizeVideoUrl (param_videoId p);
               (fetched, ev2) = getVideoMetadata w (param_binaryPath p) cookieFilePath url
           in case fetched of
                Inl msg \<Rightarrow> (Inl msg, cookieFilePath, ev1 @ ev2)
              | Inr info \<Rightarrow>
                  (let subs = (case subtitles info of None \<Rightarrow> [] | Some m \<Rightarrow> m);
                       autoCaptions = (case automatic_captions info of None \<Rightarrow> [] | Some m \<Rightarrow> m);
                       sel = findBestSubtitle subs autoCaptions lang (param_preferManual p)
                   in if selectedSubtitle sel = None
                      then (Inl (noTranscriptMessage lang subs autoCaptions),
                            cookieFilePath, ev1 @ ev2)
                      else
                       (let (parsed, ev3) =
                              downloadAndParseTranscript w (param_binaryPath p) cookieFilePath url
                                lang itemIndex (isManualSubtitle sel)
                        in case parsed of
                             Inl msg \<Rightarrow> (Inl msg, cookieFilePath, ev1 @ ev2 @ ev3)
                           | Inr formattedTranscript \<Rightarrow>
                               (Inr \<lparr>youtubeId = extractVideoId (param_videoId p),
                                     videoUrl = url,
                                     language = lang,
                                     subtitleType = (if isManualSubtitle sel then ''manual''
                                                     else ''auto-generated''),
                                     transcriptLength = length formattedTranscript,
                                     transcript =
                                       (if param_outputFormat p = ''structured'' \<or>
                                           param_outputFormat p = ''both''
                                        then Some formattedTranscript else None),
                                     transcriptText =
                                       (if param_outputFormat p = ''plainText'' \<or>
                                           param_outputFormat p = ''both''
                                        then Some (js_join '' '' (map text formattedTranscript))
                                        else None),
                                     metadata =
                                       (if param_includeMetadata p then Some (details info)
                                        else None)\<rparr>,
                                cookieFilePath, ev1 @ ev2 @ ev3)))))"

text \<open>The \<open>catch\<close> block.\<close>

definition catchBlock :: "('a, 'm) world \<Rightarrow> params \<Rightarrow> string + 'm Result \<Rightarrow> 'm outcome" where
  "catchBlock w p r =
     (case r of
        Inr result \<Rightarrow> Pushed (Json result)
      | Inl message \<Rightarrow>
          if str_includes message ''yt-dlp'' \<or> str_includes message ''command not found''
          then Thrown
                 ''yt-dlp binary not found or failed to run. Please check the binaryPath parameter.''
          else if continueOnFail w then Pushed (ErrorJson message (param_videoId p))
          else Thrown message)"

text \<open>The \<open>finally\<close> block.\<close>

definition finallyBlock :: "params \<Rightarrow> string \<Rightarrow> event list" where
  "finallyBlock p cookieFilePath =
     (if cookieFilePath \<noteq> [] \<and> param_authMethod p = ''cookieString''
      then [Unlink cookieFilePath] else [])"

definition processItem ::
  "('a, 'm) world \<Rightarrow> params \<Rightarrow> nat \<Rightarrow> 'm outcome \<times> event list" where
  "processItem w p itemIndex =
     (let (r, cookieFilePath, ev) = tryBlock w p itemIndex
      in (catchBlock w p r, ev @ finallyBlock p cookieFilePath))"

text \<open>The loop over the input items: a throw ends it.\<close>

fun executeLoop ::
  "('a, 'm) world \<Rightarrow> params list \<Rightarrow> nat \<Rightarrow> (string + 'm nodeData list) \<times> event list" where
  "executeLoop w [] itemIndex = (Inr [], [])"
| "executeLoop w (p # ps) itemIndex =
     (case processItem w p itemIndex of
        (Thrown message, ev) \<Rightarrow> (Inl message, ev)
      | (Pushed out, ev) \<Rightarrow>
          (case executeLoop w ps (Suc itemIndex) of
             (Inl message, ev') \<Rightarrow> (Inl message, ev @ ev')
           | (Inr outs, ev') \<Rightarrow> (Inr (out # outs), ev @ ev')))"

definition execute :: "('a, 'm) world \<Rightarrow> params list \<Rightarrow> (string + 'm nodeData list) \<times> event list" where
  "execute w items = executeLoop w items 0"

section \<open>Notions of the specification\<close>

text \<open>
  The specification's words for the notions that the properties below compare the code
  with. A field of a timestamp is non-numeric at its start when, after trimming, it
  begins with a character that no numeric literal begins with.
\<close>

definition startsNonNumeric :: "string \<Rightarrow> bool" where
  "startsNonNumeric f =
     (case trim f of
        [] \<Rightarrow> False
      | c # _ \<Rightarrow> \<not> isDigit c \<and> c \<noteq> CHR ''+'' \<and> c \<noteq> CHR ''-'' \<and> c \<noteq> CHR ''.'' \<and>
                 c \<noteq> CHR ''I'')"

text \<open>
  The text of a string before the first (leftmost) occurrence of a separator, and the
  text after that occurrence.
\<close>

fun beforeFirst :: "string \<Rightarrow> string \<Rightarrow> string" where
  "beforeFirst sep [] = []"
| "beforeFirst sep (c # cs) = (if prefix sep (c # cs) then [] else c # beforeFirst sep cs)"



text \<open>
  A Number with exactly three decimal places: the value of a decimal literal
  \<open>k / 1000\<close>. What \<open>+x.toFixed(3)\<close> can return is such a Number, or a non-finite value
  or a magnitude of \<open>10^21\<close> or more, which pass unchanged.
\<close>

definition threeDecimals :: "jsnum \<Rightarrow> bool" where
  "threeDecimals x \<longleftrightarrow> (\<exists>k::int. x = rd (of_int k / 1000))"

definition fixed3Result :: "jsnum \<Rightarrow> bool" where
  "fixed3Result x \<longleftrightarrow>
     x = NaN \<or> x = PInf \<or> x = NInf \<or> (\<exists>q. x = Fin q \<and> 10 ^ 21 \<le> \<bar>q\<bar>) \<or> threeDecimals x"

subsection \<open>A concrete world\<close>

text \<open>
  A world for running the operation on concrete items: the downloader succeeds and
  reports a video with no subtitle tracks of either kind; no file exists.
\<close>

definition exampleWorld :: "(nat, unit) world" where
  "exampleWorld =
     \<lparr>execAsync = (\<lambda>cmd. Inr []),
      jsonParse = (\<lambda>stdout. Inr \<lparr>subtitles = Some [], automatic_captions = Some [],
                                   details = ()\<rparr>),
      readFile = (\<lambda>file. None),
      tmpName = (\<lambda>prefix i. ''/tmp/'' @ prefix),
      continueOnFail = False\<rparr>"

definition exampleParams :: "string \<Rightarrow> string \<Rightarrow> params" where
  "exampleParams v l =
     \<lparr>param_videoId = v, param_lang = l, param_preferManual = True,
      param_outputFormat = ''structured'', param_includeMetadata = False,
      param_binaryPath = ''yt-dlp'', param_authMethod = ''none'',
      param_cookieString = [], param_cookieFile = []\<rparr>"

section \<open>Properties of the Time Parser\<close>

lemma js_split_no_sep: "c \<notin> set s \<Longrightarrow> js_split [c] s = [s]"
  by (induction s) auto

lemma js_split_at_sep: "c \<notin> set a \<Longrightarrow> js_split [c] (a @ c # b) = a # js_split [c] b"
  by (induction a) auto

text \<open>
  Claim C3. The Time Parser computes \<open>h * 3600 + m * 60 + s\<close> for three colon-separated
  fields, \<open>m * 60 + s\<close> for two fields, and a direct floating-point parse for a single
  field, where the hour and minute fields are read by the unary plus and the seconds
  field by \<open>parseFloat\<close>. In particular \<open>"01:02:03.500"\<close> gives \<open>3723.5\<close>,
  \<open>"02:03.250"\<close> gives \<open>123.25\<close> and \<open>"5.5"\<close> gives \<open>5.5\<close>.
\<close>

theorem timeToSeconds_fields:
  "(CHR '':'' \<notin> set h \<and> CHR '':'' \<notin> set m \<and> CHR '':'' \<notin> set s \<longrightarrow>
      timeToSeconds (h @ '':'' @ m @ '':'' @ s) =
        js_add (js_add (js_mul (toNumber h) (Fin 3600)) (js_mul (toNumber m) (Fin 60)))
               (parseFloat s) \<and>
      timeToSeconds (m @ '':'' @ s) = js_add (js_mul (toNumber m) (Fin 60)) (parseFloat s) \<and>
      timeToSeconds s = parseFloat s) \<and>
   timeToSeconds ''01:02:03.500'' = Fin (7447 / 2) \<and>
   timeToSeconds ''02:03.250'' = Fin (493 / 4) \<and>
   timeToSeconds ''5.5'' = Fin (11 / 2)"
proof -
  have general: "timeToSeconds (h @ '':'' @ m @ '':'' @ s) =
        js_add (js_add (js_mul (toNumber h) (Fin 3600)) (js_mul (toNumber m) (Fin 60)))
               (parseFloat s) \<and>
      timeToSeconds (m @ '':'' @ s) = js_add (js_mul (toNumber m) (Fin 60)) (parseFloat s) \<and>
      timeToSeconds s = parseFloat s"
    if "CHR '':'' \<notin> set h" "CHR '':'' \<notin> set m" "CHR '':'' \<notin> set s"
    using that by (simp add: timeToSeconds_def js_split_at_sep js_split_no_sep)
  have three: "timeToSeconds ''01:02:03.500'' = Fin (7447 / 2)" by code_simp
  have two: "timeToSeconds ''02:03.250'' = Fin (493 / 4)" by code_simp
  have one: "timeToSeconds ''5.5'' = Fin (11 / 2)" by code_simp
  from general three two one show ?thesis by blast
qed

theorem timeToSeconds_fields_witness:
  "CHR '':'' \<notin> set ''01'' \<and> CHR '':'' \<notin> set ''02'' \<and> CHR '':'' \<notin> set ''03.500'' \<and>
   timeToSeconds (''01'' @ '':'' @ ''02'' @ '':'' @ ''03.500'') =
     js_add (js_add (js_mul (toNumber ''01'') (Fin 3600)) (js_mul (toNumber ''02'') (Fin 60)))
            (parseFloat ''03.500'') \<and>
   timeToSeconds (''02'' @ '':'' @ ''03.500'') =
     js_add (js_mul (toNumber ''02'') (Fin 60)) (parseFloat ''03.500'') \<and>
   timeToSeconds ''03.500'' = parseFloat ''03.500''"
  using timeToSeconds_fields [of "''01''" "''02''" "''03.500''"] by simp

lemma js_add_NaN_right: "js_add x NaN = NaN"
  by (cases x) simp_all

lemma js_mul_NaN_right: "js_mul x NaN = NaN"
  by (cases x) simp_all

lemma scanDecimal_nonNumeric:
  "\<not> isDigit c \<Longrightarrow> c \<noteq> CHR ''+'' \<Longrightarrow> c \<noteq> CHR ''-'' \<Longrightarrow> c \<noteq> CHR ''.'' \<Longrightarrow> c \<noteq> CHR ''I'' \<Longrightarrow>
   scanDecimal (c # r) = None"
  by (simp add: scanDecimal_def scanUnsignedDecimal_def)

lemma nonDecimalLiteral_nonNumeric:
  assumes "\<not> isDigit c"
  shows "nonDecimalLiteral (c # r) = None"
proof -
  have "isDigit (CHR ''0'')" by (simp add: isDigit_def)
  with assms have "c \<noteq> CHR ''0''" by blast
  then show ?thesis
    by (cases r) (simp_all add: nonDecimalLiteral_def)
qed

lemma toNumber_nonNumeric: "startsNonNumeric f \<Longrightarrow> toNumber f = NaN"
  by (auto simp: startsNonNumeric_def toNumber_def scanDecimal_nonNumeric
      nonDecimalLiteral_nonNumeric split: list.splits)

lemma toNumber_blank: "trim f = [] \<Longrightarrow> toNumber f = Fin 0"
  by (simp add: toNumber_def)

text \<open>
  Claim C4, as amended. For a malformed timestamp, an hours or minutes field that is
  empty or only white space contributes \<open>0\<close>; an hours or minutes field that the unary
  plus cannot read as a numeric literal, in particular every field that starts with a
  character no numeric literal starts with, makes the result \<open>NaN\<close>; an unparseable
  seconds field yields \<open>NaN\<close>, which propagates uncorrected. The Time Parser is a total
  function to Numbers: it raises nothing. (The fields are the pieces between the colons,
  so they contain none.)
\<close>

theorem timeToSeconds_malformed:
  "(CHR '':'' \<notin> set h \<and> CHR '':'' \<notin> set m \<and> CHR '':'' \<notin> set s \<longrightarrow>
     (trim h = [] \<longrightarrow>
        timeToSeconds (h @ '':'' @ m @ '':'' @ s) =
          js_add (js_add (js_mul (Fin 0) (Fin 3600)) (js_mul (toNumber m) (Fin 60))) (parseFloat s)) \<and>
     (trim m = [] \<longrightarrow>
        timeToSeconds (h @ '':'' @ m @ '':'' @ s) =
          js_add (js_add (js_mul (toNumber h) (Fin 3600)) (js_mul (Fin 0) (Fin 60))) (parseFloat s) \<and>
        timeToSeconds (m @ '':'' @ s) = js_add (js_mul (Fin 0) (Fin 60)) (parseFloat s)) \<and>
     (toNumber h = NaN \<or> toNumber m = NaN \<or> parseFloat s = NaN \<longrightarrow>
        timeToSeconds (h @ '':'' @ m @ '':'' @ s) = NaN) \<and>
     (toNumber m = NaN \<or> parseFloat s = NaN \<longrightarrow> timeToSeconds (m @ '':'' @ s) = NaN) \<and>
     (parseFloat s = NaN \<longrightarrow> timeToSeconds s = NaN)) \<and>
   (startsNonNumeric f \<longrightarrow> toNumber f = NaN)"
proof -
  have fields: "(trim h = [] \<longrightarrow>
        timeToSeconds (h @ '':'' @ m @ '':'' @ s) =
          js_add (js_add (js_mul (Fin 0) (Fin 3600)) (js_mul (toNumber m) (Fin 60))) (parseFloat s)) \<and>
     (trim m = [] \<longrightarrow>
        timeToSeconds (h @ '':'' @ m @ '':'' @ s) =
          js_add (js_add (js_mul (toNumber h) (Fin 3600)) (js_mul (Fin 0) (Fin 60))) (parseFloat s) \<and>
        timeToSeconds (m @ '':'' @ s) = js_add (js_mul (Fin 0) (Fin 60)) (parseFloat s)) \<and>
     (toNumber h = NaN \<or> toNumber m = NaN \<or> parseFloat s = NaN \<longrightarrow>
        timeToSeconds (h @ '':'' @ m @ '':'' @ s) = NaN) \<and>
     (toNumber m = NaN \<or> parseFloat s = NaN \<longrightarrow> timeToSeconds (m @ '':'' @ s) = NaN) \<and>
     (parseFloat s = NaN \<longrightarrow> timeToSeconds s = NaN)"
    if "CHR '':'' \<notin> set h \<and> CHR '':'' \<notin> set m \<and> CHR '':'' \<notin> set s"
  proof -
    from that have three: "timeToSeconds (h @ '':'' @ m @ '':'' @ s) =
          js_add (js_add (js_mul (toNumber h) (Fin 3600)) (js_mul (toNumber m) (Fin 60)))
                 (parseFloat s)"
      and two: "timeToSeconds (m @ '':'' @ s) = js_add (js_mul (toNumber m) (Fin 60)) (parseFloat s)"
      and one: "timeToSeconds s = parseFloat s"
      by (simp_all add: timeToSeconds_def js_split_at_sep js_split_no_sep)
    show ?thesis
      unfolding three two one
      by (auto simp: toNumber_blank js_add_NaN_right js_mul_NaN_right)
  qed
  with toNumber_nonNumeric [of f] show ?thesis by blast
qed

theorem timeToSeconds_malformed_witness:
  "CHR '':'' \<notin> set ''ab'' \<and> CHR '':'' \<notin> set '' '' \<and> CHR '':'' \<notin> set ''x'' \<and>
   trim '' '' = [] \<and> startsNonNumeric ''ab'' \<and> toNumber ''ab'' = NaN \<and> parseFloat ''x'' = NaN \<and>
   timeToSeconds (''ab'' @ '':'' @ '' '' @ '':'' @ ''x'') =
     js_add (js_add (js_mul (toNumber ''ab'') (Fin 3600)) (js_mul (Fin 0) (Fin 60)))
       (parseFloat ''x'') \<and>
   timeToSeconds ('' '' @ '':'' @ ''x'') = js_add (js_mul (Fin 0) (Fin 60)) (parseFloat ''x'') \<and>
   timeToSeconds (''ab'' @ '':'' @ '' '' @ '':'' @ ''x'') = NaN \<and>
   timeToSeconds ('' '' @ '':'' @ ''x'') = NaN \<and>
   timeToSeconds ''x'' = NaN \<and>
   CHR '':'' \<notin> set [] \<and> CHR '':'' \<notin> set ''00'' \<and> CHR '':'' \<notin> set ''01'' \<and> trim [] = [] \<and>
   timeToSeconds ([] @ '':'' @ ''00'' @ '':'' @ ''01'') =
     js_add (js_add (js_mul (Fin 0) (Fin 3600)) (js_mul (toNumber ''00'') (Fin 60)))
       (parseFloat ''01'')"
proof -
  have c1: "CHR '':'' \<notin> set ''ab'' \<and> CHR '':'' \<notin> set '' '' \<and> CHR '':'' \<notin> set ''x''" by simp
  have c2: "CHR '':'' \<notin> set [] \<and> CHR '':'' \<notin> set ''00'' \<and> CHR '':'' \<notin> set ''01''" by simp
  have b1: "trim '' '' = []" by code_simp
  have b2: "trim [] = []" by code_simp
  have n: "startsNonNumeric ''ab''" by code_simp
  have f: "parseFloat ''x'' = NaN" by code_simp
  from timeToSeconds_malformed
      [where h = "''ab''" and m = "'' ''" and s = "''x''" and f = "''ab''"]
    timeToSeconds_malformed [where h = "[]" and m = "''00''" and s = "''01''" and f = "''ab''"]
    c1 c2 b1 b2 n f
  show ?thesis by blast
qed

text \<open>
  Claim C4 as the specification states it fails: the hours field \<open>ab\<close> does not
  contribute \<open>0\<close> to \<open>"ab:00:01"\<close>, whose value is \<open>NaN\<close> and not the \<open>1\<close> of
  \<open>"0:00:01"\<close>.
\<close>

theorem timeToSeconds_malformed_counterexample:
  "timeToSeconds ''ab:00:01'' = NaN \<and> timeToSeconds ''0:00:01'' = Fin 1 \<and>
   timeToSeconds ''ab:00:01'' \<noteq> timeToSeconds ''0:00:01''"
proof -
  have a: "timeToSeconds ''ab:00:01'' = NaN" by code_simp
  have b: "timeToSeconds ''0:00:01'' = Fin 1" by code_simp
  from a b show ?thesis by simp
qed

section \<open>Properties of the Cue Parser\<close>

text \<open>
  Claim C1. For the input
  \<open>"00:00:00.000 --> 00:00:02.500\nHello <b>world</b>\n\n00:00:02.500 --> 00:00:04.000\nSecond line\n"\<close>
  the Cue Parser returns exactly the two items \<open>{text: "Hello world", start: 0,
  duration: 2.5}\<close> and \<open>{text: "Second line", start: 2.5, duration: 1.5}\<close>: the tags are
  deleted, the lines trimmed and joined by single spaces, and the duration is the end
  minus the start.
\<close>

theorem parseTranscriptContent_example:
  "parseTranscriptContent
     (''00:00:00.000 --> 00:00:02.500'' @ [LF] @ ''Hello <b>world</b>'' @ [LF, LF] @
      ''00:00:02.500 --> 00:00:04.000'' @ [LF] @ ''Second line'' @ [LF]) =
   [\<lparr>text = ''Hello world'', start = Fin 0, duration = Fin (5 / 2)\<rparr>,
    \<lparr>text = ''Second line'', start = Fin (5 / 2), duration = Fin (3 / 2)\<rparr>]"
  by code_simp

lemma js_split_not_Nil: "js_split sep s \<noteq> []"
  by (induction s) (auto split: list.splits)

lemma js_split_two_pieces:
  "sep \<noteq> [] \<Longrightarrow> str_includes s sep \<Longrightarrow> \<exists>p q r. js_split sep s = p # q # r"
proof (induction s)
  case Nil
  then show ?case by simp
next
  case (Cons c cs)
  show ?case
  proof (cases "prefix sep (c # cs)")
    case True
    obtain q r where "js_split sep (drop (length sep) (c # cs)) = q # r"
      using js_split_not_Nil [of sep "drop (length sep) (c # cs)"] by (meson list.exhaust)
    with True Cons.prems(1) show ?thesis by simp
  next
    case False
    with Cons.prems have "str_includes cs sep" by simp
    with Cons.IH Cons.prems(1) obtain p q r where "js_split sep cs = p # q # r" by blast
    with False show ?thesis by simp
  qed
qed

text \<open>The destructuring of a timing line never leaves \<open>endTime\<close> undefined.\<close>

lemma timingFields_Some: "str_includes line arrow \<Longrightarrow> timingFields line \<noteq> None"
proof -
  assume "str_includes line arrow"
  moreover have "arrow \<noteq> []" by (simp add: arrow_def)
  ultimately obtain p q r where "js_split arrow line = p # q # r"
    using js_split_two_pieces by blast
  then show ?thesis by (simp add: timingFields_def)
qed



lemma first_occurrence_leftmost:
  "s = a @ sep @ b \<Longrightarrow> length (beforeFirst sep s) \<le> length a"
proof (induction a arbitrary: s)
  case Nil
  then have "prefix sep s" by simp
  then show ?case by (cases s) simp_all
next
  case (Cons x a)
  then show ?case by simp
qed

lemma beforeFirst_no_occurrence: "\<not> str_includes s sep \<Longrightarrow> beforeFirst sep s = s"
  by (induction s) auto




lemma rd_not_NaN: "rd q \<noteq> NaN"
  by (simp add: rd_def Let_def)

lemma fixed3Result_roundFixed3: "fixed3Result (roundFixed3 x)"
proof (cases x)
  case (Fin q)
  show ?thesis
  proof (cases "10 ^ 21 \<le> \<bar>q\<bar>")
    case True
    with Fin show ?thesis by (simp add: fixed3Result_def)
  next
    case False
    define n where "n = \<lfloor>\<bar>q\<bar> * 1000 + 1 / 2\<rfloor>"
    have "roundFixed3 x = rd (of_int (if q < 0 then - n else n) / 1000)"
      using Fin False by (simp add: n_def Let_def)
    then have "threeDecimals (roundFixed3 x)"
      unfolding threeDecimals_def by blast
    then show ?thesis by (simp add: fixed3Result_def)
  qed
qed (simp_all add: fixed3Result_def)

lemma pushCue_items:
  "it \<in> set (pushCue st du tx) \<Longrightarrow>
   text it \<noteq> [] \<and> fixed3Result (start it) \<and> fixed3Result (duration it)"
  by (auto simp: pushCue_def fixed3Result_roundFixed3 split: if_splits)

text \<open>Both loops only ever emit items with a non-empty text and rounded times.\<close>

lemma emitted_items:
  "(\<forall>it \<in> set (scanLines ls).
      text it \<noteq> [] \<and> fixed3Result (start it) \<and> fixed3Result (duration it))"
  "(\<forall>it \<in> set (accumulateCue st du tx ls).
      text it \<noteq> [] \<and> fixed3Result (start it) \<and> fixed3Result (duration it))"
proof (induction ls and st du tx ls rule: scanLines_accumulateCue.induct)
  case 1
  show ?case by simp
next
  case (2 l ls)
  show ?case
  proof (cases "str_includes (trim l) arrow")
    case True
    show ?thesis
    proof (cases "timingFields (trim l)")
      case None
      with True show ?thesis by simp
    next
      case (Some ab)
      obtain a b where ab: "ab = (a, b)" by (cases ab)
      from "2.IH"(1) [OF refl True Some ab [symmetric] refl refl refl]
      have "\<forall>it \<in> set (accumulateCue (timeToSeconds a)
                (js_sub (timeToSeconds b) (timeToSeconds a)) [] ls).
              text it \<noteq> [] \<and> fixed3Result (start it) \<and> fixed3Result (duration it)"
        .
      with True Some ab show ?thesis by (simp add: Let_def)
    qed
  next
    case False
    with "2.IH"(2) show ?thesis by (simp add: Let_def)
  qed
next
  case (3 st du tx)
  show ?case using pushCue_items by auto
next
  case (4 st du tx l ls)
  show ?case
  proof (cases "trim l \<noteq> [] \<and> \<not> str_includes l arrow")
    case True
    with "4.IH"(1) show ?thesis by (simp add: Let_def)
  next
    case False
    with "4.IH"(2) pushCue_items show ?thesis by auto
  qed
qed

text \<open>Lines that are blank or hold only markup never make an item.\<close>

lemma blank_lines_no_items:
  "list_all (\<lambda>x. trim (stripTags x) = []) (tl ls) \<longrightarrow> scanLines ls = []"
  "trim tx = [] \<and> list_all (\<lambda>x. trim (stripTags x) = []) ls \<longrightarrow> accumulateCue st du tx ls = []"
proof (induction ls and st du tx ls rule: scanLines_accumulateCue.induct)
  case 1
  show ?case by simp
next
  case (2 l ls)
  show ?case
  proof
    assume blank: "list_all (\<lambda>x. trim (stripTags x) = []) (tl (l # ls))"
    then have ls: "list_all (\<lambda>x. trim (stripTags x) = []) ls" by simp
    then have tl: "list_all (\<lambda>x. trim (stripTags x) = []) (tl ls)" by (cases ls) simp_all
    have empty: "trim [] = []" by (simp add: trim_def)
    show "scanLines (l # ls) = []"
    proof (cases "str_includes (trim l) arrow")
      case True
      show ?thesis
      proof (cases "timingFields (trim l)")
        case None
        with True show ?thesis by simp
      next
        case (Some ab)
        obtain a b where ab: "ab = (a, b)" by (cases ab)
        from "2.IH"(1) [OF refl True Some ab [symmetric] refl refl refl] empty ls
        have "accumulateCue (timeToSeconds a)
                (js_sub (timeToSeconds b) (timeToSeconds a)) [] ls = []"
          by simp
        with True Some ab show ?thesis by (simp add: Let_def)
      qed
    next
      case False
      with "2.IH"(2) tl show ?thesis by (simp add: Let_def)
    qed
  qed
next
  case (3 st du tx)
  show ?case by (simp add: pushCue_def)
next
  case (4 st du tx l ls)
  show ?case
  proof
    assume a: "trim tx = [] \<and> list_all (\<lambda>x. trim (stripTags x) = []) (l # ls)"
    then have tx: "trim tx = []" and l: "trim (stripTags l) = []"
      and ls: "list_all (\<lambda>x. trim (stripTags x) = []) ls" by simp_all
    show "accumulateCue st du tx (l # ls) = []"
    proof (cases "trim l \<noteq> [] \<and> \<not> str_includes l arrow")
      case True
      with "4.IH"(1) tx l ls show ?thesis by (simp add: Let_def)
    next
      case False
      then have eq: "accumulateCue st du tx (l # ls) = pushCue st du tx @ scanLines (l # ls)"
        by auto
      from "4.IH"(2) [OF False] ls have "scanLines (l # ls) = []"
        by simp
      moreover from tx have "pushCue st du tx = []"
        by (simp add: pushCue_def)
      ultimately show ?thesis
        unfolding eq by (simp only: append_Nil)
    qed
  qed
qed

text \<open>
  Claim C8, as amended. Every item the Cue Parser emits has a text that is non-empty
  after markup stripping and trimming, and its start and duration are each the result of
  \<open>+x.toFixed(3)\<close>: a Number with exactly three decimal places whatever the precision of
  the timestamps, except that \<open>NaN\<close> and the infinities (from malformed timestamps) and
  magnitudes of \<open>10^21\<close> or more pass unchanged. A timing line followed only by blank or
  markup-only lines yields no item.
\<close>

theorem emitted_items_rounded_and_nonempty:
  "(it \<in> set (parseTranscriptContent content) \<longrightarrow>
      text it \<noteq> [] \<and> fixed3Result (start it) \<and> fixed3Result (duration it)) \<and>
   (LF \<notin> set l \<and> list_all (\<lambda>x. trim (stripTags x) = []) (js_split [LF] rest) \<longrightarrow>
      parseTranscriptContent (l @ [LF] @ rest) = [])"
proof -
  have suppressed: "parseTranscriptContent (l @ [LF] @ rest) = []"
    if l: "LF \<notin> set l" and blank: "list_all (\<lambda>x. trim (stripTags x) = []) (js_split [LF] rest)"
  proof -
    have "js_split [LF] (l @ [LF] @ rest) = l # js_split [LF] rest"
      using l by (simp add: js_split_at_sep)
    moreover have "scanLines (l # js_split [LF] rest) = []"
      using blank_lines_no_items(1) [of "l # js_split [LF] rest"] blank by simp
    ultimately show ?thesis
      by (simp only: parseTranscriptContent_def)
  qed
  have items: "text it \<noteq> [] \<and> fixed3Result (start it) \<and> fixed3Result (duration it)"
    if "it \<in> set (parseTranscriptContent content)"
    using that emitted_items(1) [of "js_split [LF] content"]
    by (simp only: parseTranscriptContent_def) blast
  from suppressed items show ?thesis by blast
qed

theorem emitted_items_rounded_and_nonempty_witness:
  "\<lparr>text = ''x'', start = Fin 1, duration = Fin 1\<rparr> \<in>
     set (parseTranscriptContent (''0:01.0005 --> 0:02'' @ [LF] @ ''x'')) \<and>
   text \<lparr>text = ''x'', start = Fin 1, duration = Fin 1\<rparr> \<noteq> [] \<and>
   fixed3Result (start \<lparr>text = ''x'', start = Fin 1, duration = Fin 1\<rparr>) \<and>
   fixed3Result (duration \<lparr>text = ''x'', start = Fin 1, duration = Fin 1\<rparr>) \<and>
   LF \<notin> set ''0:01 --> 0:02'' \<and>
   list_all (\<lambda>x. trim (stripTags x) = []) (js_split [LF] (''<c></c>'' @ [LF] @ ''  '')) \<and>
   parseTranscriptContent (''0:01 --> 0:02'' @ [LF] @ (''<c></c>'' @ [LF] @ ''  '')) = []"
proof -
  have parsed: "parseTranscriptContent (''0:01.0005 --> 0:02'' @ [LF] @ ''x'') =
     [\<lparr>text = ''x'', start = Fin 1, duration = Fin 1\<rparr>]" by code_simp
  then have mem: "\<lparr>text = ''x'', start = Fin 1, duration = Fin 1\<rparr> \<in>
     set (parseTranscriptContent (''0:01.0005 --> 0:02'' @ [LF] @ ''x''))" by simp
  have nl: "LF \<notin> set ''0:01 --> 0:02''" by (simp add: LF_def)
  have blank: "list_all (\<lambda>x. trim (stripTags x) = [])
     (js_split [LF] (''<c></c>'' @ [LF] @ ''  ''))" by code_simp
  from emitted_items_rounded_and_nonempty
    [where it = "\<lparr>text = ''x'', start = Fin 1, duration = Fin 1\<rparr>"
       and content = "''0:01.0005 --> 0:02'' @ [LF] @ ''x''"
       and l = "''0:01 --> 0:02''" and rest = "''<c></c>'' @ [LF] @ ''  ''"]
    mem nl blank
  show ?thesis by blast
qed

text \<open>
  Claim C8 as the specification states it fails: the timing line \<open>a --> b\<close> followed by
  the text \<open>Hi\<close> yields an item whose start and duration are \<open>NaN\<close>, which is no Number
  with three decimal places.
\<close>

theorem rounding_counterexample:
  "parseTranscriptContent (''a --> b'' @ [LF] @ ''Hi'') =
     [\<lparr>text = ''Hi'', start = NaN, duration = NaN\<rparr>] \<and>
   \<not> threeDecimals NaN"
proof -
  have "parseTranscriptContent (''a --> b'' @ [LF] @ ''Hi'') =
     [\<lparr>text = ''Hi'', start = NaN, duration = NaN\<rparr>]" by code_simp
  moreover have "\<not> threeDecimals NaN"
    using rd_not_NaN [symmetric] by (auto simp: threeDecimals_def)
  ultimately show ?thesis by simp
qed

section \<open>Properties of the Language Matcher\<close>

lemma getMember_own: "map_of m k = Some t \<Longrightarrow> getMember m k = Some (Tracks t)"
  by (simp add: getMember_def)

lemma hasLength_own: "map_of m k = Some t \<Longrightarrow> hasLength m k = (t \<noteq> [])"
  by (simp add: hasLength_def getMember_def memberLength_def)

lemma getMember_not_inherited:
  "map_of objectPrototype k = None \<Longrightarrow> getMember m k = map_option Tracks (map_of m k)"
  by (simp add: getMember_def split: option.splits)

lemma hasLength_not_inherited:
  "map_of objectPrototype k = None \<Longrightarrow> hasLength m k = hasNonEmptyEntry m k"
  by (simp add: hasLength_def hasNonEmptyEntry_def getMember_def memberLength_def
      split: option.splits)

lemma wellFormed_entry: "wellFormed m \<Longrightarrow> hasNonEmptyEntry m k = (map_of m k \<noteq> None)"
  by (auto simp: wellFormed_def hasNonEmptyEntry_def list_all_iff
      split: option.splits dest: map_of_SomeD)

lemma eitherTrack_spec:
  assumes "wellFormed S" and "map_of objectPrototype v = None"
  shows "eitherTrack S A v =
     \<lparr>selectedSubtitle =
        map_option Tracks (if hasNonEmptyEntry S v then map_of S v else map_of A v),
      isManualSubtitle = hasNonEmptyEntry S v\<rparr>"
  using assms
  by (cases "map_of S v")
     (simp_all add: eitherTrack_def getMember_not_inherited wellFormed_entry)

lemma firstPass_find:
  assumes "wellFormed S" and "list_all (\<lambda>v. map_of objectPrototype v = None) vs"
  shows "firstPass S A pm vs =
     map_option
       (\<lambda>v. \<lparr>selectedSubtitle =
                 map_option Tracks (if hasNonEmptyEntry S v then map_of S v else map_of A v),
               isManualSubtitle = hasNonEmptyEntry S v\<rparr>)
       (find (specPass1 S A pm) vs)"
  using assms(2)
proof (induction vs)
  case Nil
  show ?case by simp
next
  case (Cons v vs)
  then have v: "map_of objectPrototype v = None" by simp
  from Cons show ?case
    by (simp add: specPass1_def hasLength_not_inherited [OF v]
        getMember_not_inherited [OF v] eitherTrack_spec [OF assms(1) v])
qed

lemma secondPass_find:
  assumes "wellFormed S" and "list_all (\<lambda>v. map_of objectPrototype v = None) vs"
  shows "secondPass S A vs =
     map_option
       (\<lambda>v. \<lparr>selectedSubtitle =
                 map_option Tracks (if hasNonEmptyEntry S v then map_of S v else map_of A v),
               isManualSubtitle = hasNonEmptyEntry S v\<rparr>)
       (find (specPass2 S A) vs)"
  using assms(2)
proof (induction vs)
  case Nil
  show ?case by simp
next
  case (Cons v vs)
  then have v: "map_of objectPrototype v = None" by simp
  from Cons show ?case
    by (simp add: specPass2_def hasLength_not_inherited [OF v]
        eitherTrack_spec [OF assms(1) v])
qed

lemma firstPass_skip:
  "list_all (\<lambda>u. \<not> hasLength S u \<and> \<not> hasLength A u) pre \<Longrightarrow>
   firstPass S A pm (pre @ vs) = firstPass S A pm vs"
  by (induction pre) auto

lemma secondPass_skip:
  "list_all (\<lambda>u. \<not> hasLength S u \<and> \<not> hasLength A u) pre \<Longrightarrow>
   secondPass S A (pre @ vs) = secondPass S A vs"
  by (induction pre) auto

text \<open>
  On the specification's track maps, and for a requested language none of whose variants
  is the name of an inherited member, the code returns the track and the flag of the
  variant that the specification's two-pass selection names, and null when it names none.
\<close>

lemma selection_refines_spec:
  assumes wf: "wellFormed S"
    and own: "list_all (\<lambda>v. map_of objectPrototype v = None) (langVariants lg)"
  shows "findBestSubtitle S A lg pm =
        (case selectTrack_spec S A lg pm of
           None \<Rightarrow> \<lparr>selectedSubtitle = None, isManualSubtitle = False\<rparr>
         | Some (v, manual) \<Rightarrow>
             \<lparr>selectedSubtitle = map_option Tracks (if manual then map_of S v else map_of A v),
              isManualSubtitle = manual\<rparr>)"
proof -
  define vs where "vs = langVariants lg"
  have spec: "selectTrack_spec S A lg pm =
      (case find (specPass1 S A pm) vs of
         Some v \<Rightarrow> Some (v, hasNonEmptyEntry S v)
       | None \<Rightarrow> (case find (specPass2 S A) vs of
                    Some v \<Rightarrow> Some (v, hasNonEmptyEntry S v)
                  | None \<Rightarrow> None))"
    by (simp only: selectTrack_spec_def Let_def vs_def langVariants_def)
  have code: "findBestSubtitle S A lg pm =
      (case firstPass S A pm vs of
         Some r \<Rightarrow> r
       | None \<Rightarrow> (case secondPass S A vs of
                    Some r \<Rightarrow> r
                  | None \<Rightarrow> \<lparr>selectedSubtitle = None, isManualSubtitle = False\<rparr>))"
    by (simp only: findBestSubtitle_def vs_def)
  from own have own': "list_all (\<lambda>v. map_of objectPrototype v = None) vs"
    by (simp only: vs_def)
  show ?thesis
    unfolding spec code firstPass_find [OF wf own'] secondPass_find [OF wf own']
    by (cases "find (specPass1 S A pm) vs"; cases "find (specPass2 S A) vs"; simp)
qed

text \<open>
  The example of the specification: with the manual map \<open>{"en_US": [...]}\<close>, an empty
  automatic map, \<open>lang = "en"\<close> and the manual preference, the manual \<open>en_US\<close> track is
  selected.
\<close>

lemma en_US_example:
  "ts \<noteq> [] \<Longrightarrow>
   selectTrack_spec [(''en_US'', ts)] [] ''en'' True = Some (''en_US'', True) \<and>
   findBestSubtitle [(''en_US'', ts)] [] ''en'' True =
     \<lparr>selectedSubtitle = Some (Tracks ts), isManualSubtitle = True\<rparr>"
  by (simp add: findBestSubtitle_def selectTrack_spec_def langVariants_def specPass1_def
      hasLength_def hasNonEmptyEntry_def getMember_def memberLength_def objectPrototype_def)

text \<open>
  Claim C2 on the code. The claim has the Language Matcher look for the four variants
  in the two maps only. The code's \<open>subtitles[langVar]\<close> also finds what every object
  inherits: for the requested language \<open>constructor\<close> and two empty maps the
  specification's selection finds nothing in either pass, and the code returns the
  inherited \<open>constructor\<close> function as a manual track, under either preference.
\<close>

theorem inherited_member_selected:
  "selectTrack_spec ([] :: nat TrackMap) [] ''constructor'' True = None \<and>
   selectTrack_spec ([] :: nat TrackMap) [] ''constructor'' False = None \<and>
   findBestSubtitle ([] :: nat TrackMap) [] ''constructor'' True =
     \<lparr>selectedSubtitle = Some (Inherited ''constructor''), isManualSubtitle = True\<rparr> \<and>
   findBestSubtitle ([] :: nat TrackMap) [] ''constructor'' False =
     \<lparr>selectedSubtitle = Some (Inherited ''constructor''), isManualSubtitle = True\<rparr>"
proof -
  have 1: "selectTrack_spec ([] :: nat TrackMap) [] ''constructor'' True = None" by code_simp
  have 2: "selectTrack_spec ([] :: nat TrackMap) [] ''constructor'' False = None" by code_simp
  have 3: "findBestSubtitle ([] :: nat TrackMap) [] ''constructor'' True =
     \<lparr>selectedSubtitle = Some (Inherited ''constructor''), isManualSubtitle = True\<rparr>"
    by code_simp
  have 4: "findBestSubtitle ([] :: nat TrackMap) [] ''constructor'' False =
     \<lparr>selectedSubtitle = Some (Inherited ''constructor''), isManualSubtitle = True\<rparr>"
    by code_simp
  from 1 2 3 4 show ?thesis by simp
qed

text \<open>
  Outside the specification's data model, a manual entry that is an empty list still
  makes the selection manual when the automatic map has a non-empty entry for the variant.
\<close>

lemma empty_manual_entry_selected:
  "t \<noteq> [] \<Longrightarrow>
   findBestSubtitle [(''en'', [])] [(''en'', t)] ''en'' False =
     \<lparr>selectedSubtitle = Some (Tracks []), isManualSubtitle = True\<rparr>"
  by (simp add: findBestSubtitle_def langVariants_def hasLength_def eitherTrack_def
      getMember_def memberLength_def)

text \<open>
  Claim C6, as amended. At the variant where the scan stops, that is the first variant
  in priority order that the lookup finds with a non-zero length in either map, if both
  the manual map and the automatic map have a non-empty entry for it, selection without
  the manual preference picks the manual track and reports it as manual. In particular,
  with \<open>{"en": [...]}\<close> in both maps and \<open>lang = "en"\<close>, the manual track is selected.
\<close>

theorem manual_chosen_when_both_present:
  "(map_of S v = Some ms \<and> ms \<noteq> [] \<and> map_of A v = Some au \<and> au \<noteq> [] \<and>
    langVariants lg = pre @ v # post \<and>
    list_all (\<lambda>u. \<not> hasLength S u \<and> \<not> hasLength A u) pre \<longrightarrow>
      findBestSubtitle S A lg False =
        \<lparr>selectedSubtitle = Some (Tracks ms), isManualSubtitle = True\<rparr>) \<and>
   (ms \<noteq> [] \<and> au \<noteq> [] \<longrightarrow>
      findBestSubtitle [(''en'', ms)] [(''en'', au)] ''en'' False =
        \<lparr>selectedSubtitle = Some (Tracks ms), isManualSubtitle = True\<rparr>)"
proof -
  have general: "findBestSubtitle S A lg False =
        \<lparr>selectedSubtitle = Some (Tracks ms), isManualSubtitle = True\<rparr>"
    if manual: "map_of S v = Some ms" "ms \<noteq> []"
      and order: "langVariants lg = pre @ v # post"
      and none: "list_all (\<lambda>u. \<not> hasLength S u \<and> \<not> hasLength A u) pre"
    for S A :: "'a TrackMap" and v ms lg pre post
  proof -
    have found: "hasLength S v"
      using manual by (simp add: hasLength_own)
    have "firstPass S A False (langVariants lg) = Some (eitherTrack S A v)"
      using found by (simp add: order firstPass_skip [OF none])
    then show ?thesis
      by (simp add: findBestSubtitle_def eitherTrack_def getMember_own [OF manual(1)])
  qed
  have example: "findBestSubtitle [(''en'', ms)] [(''en'', au)] ''en'' False =
        \<lparr>selectedSubtitle = Some (Tracks ms), isManualSubtitle = True\<rparr>" if "ms \<noteq> []" "au \<noteq> []"
    using that general [of "[(''en'', ms)]" "''en''" ms "''en''" "[]" "[''en_US'', ''en-US'', ''en.US'']"
        "[(''en'', au)]"]
    by (simp add: langVariants_def)
  from general example show ?thesis by blast
qed

theorem manual_chosen_when_both_present_witness:
  "map_of [(''en_US'', [1::nat])] ''en_US'' = Some [1] \<and> [1::nat] \<noteq> [] \<and>
   map_of [(''en_US'', [2::nat])] ''en_US'' = Some [2] \<and> [2::nat] \<noteq> [] \<and>
   langVariants ''en'' = [''en''] @ ''en_US'' # [''en-US'', ''en.US''] \<and>
   list_all (\<lambda>u. \<not> hasLength [(''en_US'', [1::nat])] u \<and> \<not> hasLength [(''en_US'', [2::nat])] u)
     [''en''] \<and>
   findBestSubtitle [(''en_US'', [1::nat])] [(''en_US'', [2])] ''en'' False =
     \<lparr>selectedSubtitle = Some (Tracks [1]), isManualSubtitle = True\<rparr> \<and>
   findBestSubtitle [(''en'', [1::nat])] [(''en'', [2])] ''en'' False =
     \<lparr>selectedSubtitle = Some (Tracks [1]), isManualSubtitle = True\<rparr>"
proof -
  have h1: "map_of [(''en_US'', [1::nat])] ''en_US'' = Some [1]" by simp
  have h2: "map_of [(''en_US'', [2::nat])] ''en_US'' = Some [2]" by simp
  have h3: "langVariants ''en'' = [''en''] @ ''en_US'' # [''en-US'', ''en.US'']"
    by (simp add: langVariants_def)
  have h4: "list_all (\<lambda>u. \<not> hasLength [(''en_US'', [1::nat])] u \<and>
       \<not> hasLength [(''en_US'', [2::nat])] u) [''en'']"
    by code_simp
  from manual_chosen_when_both_present
    [where S = "[(''en_US'', [1::nat])]" and v = "''en_US''" and A = "[(''en_US'', [2::nat])]"
       and lg = "''en''" and pre = "[''en'']" and post = "[''en-US'', ''en.US'']"
       and ms = "[1::nat]" and au = "[2::nat]"]
    h1 h2 h3 h4
  show ?thesis by simp
qed

text \<open>
  Claim C6 as the specification states it fails: with \<open>lang = "en"\<close>, the variant
  \<open>en_US\<close> has a non-empty entry in both maps, but the automatic map also has \<open>en\<close>,
  which comes first, and the automatic \<open>en\<close> track is selected.
\<close>

theorem earlier_variant_wins_counterexample:
  "hasNonEmptyEntry [(''en_US'', [1::nat])] ''en_US'' \<and>
   hasNonEmptyEntry [(''en'', [2::nat]), (''en_US'', [3])] ''en_US'' \<and>
   findBestSubtitle [(''en_US'', [1::nat])] [(''en'', [2]), (''en_US'', [3])] ''en'' False =
     \<lparr>selectedSubtitle = Some (Tracks [2]), isManualSubtitle = False\<rparr>"
proof -
  have 1: "hasNonEmptyEntry [(''en_US'', [1::nat])] ''en_US''" by code_simp
  have 2: "hasNonEmptyEntry [(''en'', [2::nat]), (''en_US'', [3])] ''en_US''" by code_simp
  have 3: "findBestSubtitle [(''en_US'', [1::nat])] [(''en'', [2]), (''en_US'', [3])] ''en'' False =
     \<lparr>selectedSubtitle = Some (Tracks [2]), isManualSubtitle = False\<rparr>" by code_simp
  from 1 2 3 show ?thesis by simp
qed

section \<open>Properties of the Identifier Normalizer\<close>

lemma takeWhile_all: "list_all P s \<Longrightarrow> takeWhile P s = s"
  by (induction s) auto

text \<open>
  Claim C10. For every non-empty string \<open>s\<close> that contains neither \<open>youtube.com\<close> nor
  \<open>youtu.be\<close> and consists only of letters, digits, underscores and hyphens,
  \<open>extractVideoId (normalizeVideoUrl s) = s\<close>: making a bare identifier into a watch URL
  and extracting the identifier again gives the identifier back.
\<close>

theorem extract_normalize_roundtrip:
  "s \<noteq> [] \<Longrightarrow> \<not> str_includes s ''youtube.com'' \<Longrightarrow> \<not> str_includes s ''youtu.be'' \<Longrightarrow>
   list_all idChar s \<Longrightarrow> extractVideoId (normalizeVideoUrl s) = s"
proof -
  assume ne: "s \<noteq> []" and n1: "\<not> str_includes s ''youtube.com''"
    and n2: "\<not> str_includes s ''youtu.be''" and ids: "list_all idChar s"
  have url: "normalizeVideoUrl s = ''https://www.youtube.com/watch?v='' @ s"
    using n1 n2 by (simp add: normalizeVideoUrl_def)
  have inc: "str_includes (''https://www.youtube.com/watch?v='' @ s) ''youtube.com''"
    by simp
  have here: "matchHere (''youtube.com/watch?v='' @ s) = Some s"
    using ne by (simp add: matchHere_def matchAfter_def takeWhile_all [OF ids])
  have first: "matchFirst (''https://www.youtube.com/watch?v='' @ s) = Some s"
    using here by (simp add: matchHere_def matchAfter_def)
  show ?thesis
    unfolding url extractVideoId_def using inc first by simp
qed

theorem extract_normalize_roundtrip_witness:
  "''dQw4w9WgXcQ'' \<noteq> [] \<and> \<not> str_includes ''dQw4w9WgXcQ'' ''youtube.com'' \<and>
   \<not> str_includes ''dQw4w9WgXcQ'' ''youtu.be'' \<and> list_all idChar ''dQw4w9WgXcQ'' \<and>
   extractVideoId (normalizeVideoUrl ''dQw4w9WgXcQ'') = ''dQw4w9WgXcQ''"
  using extract_normalize_roundtrip [where s = "''dQw4w9WgXcQ''"]
  by (simp add: idChar_def)

section \<open>Properties of the operation\<close>

text \<open>
  Claim C9. For every input item whose video reference is empty or only white space, the
  item fails with the invalid-input error at once: the error is thrown, or recorded as
  the item's error record when the host continues on failure, and no command has been
  run and no file touched, so neither the metadata nor the subtitle collaborator has been
  called.
\<close>

theorem blank_video_reference_rejected:
  "trim (param_videoId p) = [] \<Longrightarrow>
   processItem w p i =
     ((if continueOnFail w
       then Pushed (ErrorJson ''The video ID/URL parameter is empty.'' (param_videoId p))
       else Thrown ''The video ID/URL parameter is empty.''),
      [])"
  by (simp add: processItem_def tryBlock_def catchBlock_def finallyBlock_def)

theorem blank_video_reference_rejected_witness:
  "trim (param_videoId (exampleParams ''  '' ''en'')) = [] \<and>
   processItem exampleWorld (exampleParams ''  '' ''en'') 0 =
     (Thrown ''The video ID/URL parameter is empty.'', [])"
  using blank_video_reference_rejected
    [where p = "exampleParams ''  '' ''en''" and w = exampleWorld and i = 0]
  by (simp add: exampleParams_def exampleWorld_def trim_def isWhiteSpace_def)

text \<open>
  When the lookup finds no variant with a non-zero length in either map, nothing is
  selected, whatever the preference; the listing of the available languages is the keys of the manual map
  followed by the keys of the automatic map, or \<open>none\<close>.
\<close>

lemma no_variant_no_selection:
  assumes "list_all (\<lambda>v. \<not> hasLength S v \<and> \<not> hasLength A v) (langVariants lg)"
  shows "findBestSubtitle S A lg pm = \<lparr>selectedSubtitle = None, isManualSubtitle = False\<rparr>"
  using firstPass_skip [OF assms, of pm "[]"] secondPass_skip [OF assms, of "[]"]
  by (simp add: findBestSubtitle_def)

lemma available_languages_listing:
  "getAvailableLanguages S A =
     (if S = [] \<and> A = [] then ''none'' else js_join '', '' (map fst S @ map fst A))"
  by (simp add: getAvailableLanguages_def)

text \<open>
  With the metadata fetched and no variant found, the \<open>try\<close> block throws the
  no-transcript error; it is the item's failure unless its message contains \<open>yt-dlp\<close>
  or \<open>command not found\<close>.
\<close>

lemma no_transcript_outcome:
  assumes video: "trim (param_videoId p) \<noteq> []"
    and lang: "lg = (if param_lang p = [] then ''en'' else param_lang p)"
    and fetched: "\<And>c u. fst (getVideoMetadata w (param_binaryPath p) c u) = Inr info"
    and subs: "S = (case subtitles info of None \<Rightarrow> [] | Some m \<Rightarrow> m)"
    and autos: "A = (case automatic_captions info of None \<Rightarrow> [] | Some m \<Rightarrow> m)"
    and none: "list_all (\<lambda>v. \<not> hasLength S v \<and> \<not> hasLength A v) (langVariants lg)"
  shows "fst (tryBlock w p i) = Inl (noTranscriptMessage lg S A)"
    and "\<not> str_includes (noTranscriptMessage lg S A) ''yt-dlp'' \<Longrightarrow>
         \<not> str_includes (noTranscriptMessage lg S A) ''command not found'' \<Longrightarrow>
         fst (processItem w p i) =
           (if continueOnFail w then Pushed (ErrorJson (noTranscriptMessage lg S A) (param_videoId p))
            else Thrown (noTranscriptMessage lg S A))"
proof -
  have sel: "findBestSubtitle S A lg (param_preferManual p) =
      \<lparr>selectedSubtitle = None, isManualSubtitle = False\<rparr>"
    using none by (rule no_variant_no_selection)
  show thrown: "fst (tryBlock w p i) = Inl (noTranscriptMessage lg S A)"
    unfolding subs autos lang
    using video fetched sel [unfolded subs autos lang]
    by (simp add: tryBlock_def split_beta Let_def)
  show "fst (processItem w p i) =
           (if continueOnFail w then Pushed (ErrorJson (noTranscriptMessage lg S A) (param_videoId p))
            else Thrown (noTranscriptMessage lg S A))"
    if "\<not> str_includes (noTranscriptMessage lg S A) ''yt-dlp''"
       "\<not> str_includes (noTranscriptMessage lg S A) ''command not found''"
    using that thrown
    by (simp add: processItem_def catchBlock_def split_beta)
qed

text \<open>
  Claim C7 on the code. With no track in either map and the requested language
  \<open>yt-dlp\<close>, selection returns null for either preference and the \<open>try\<close> block throws
  the no-transcript error that names the language and lists the available languages;
  but the \<open>catch\<close> block finds \<open>yt-dlp\<close> in that message and throws the
  binary-not-found error in its place.
\<close>

theorem no_transcript_error_replaced:
  "findBestSubtitle ([] :: nat TrackMap) [] ''yt-dlp'' True =
     \<lparr>selectedSubtitle = None, isManualSubtitle = False\<rparr> \<and>
   findBestSubtitle ([] :: nat TrackMap) [] ''yt-dlp'' False =
     \<lparr>selectedSubtitle = None, isManualSubtitle = False\<rparr> \<and>
   fst (tryBlock exampleWorld (exampleParams ''dQw4w9WgXcQ'' ''yt-dlp'') 0) =
     Inl (''No transcript found for this video with language '' @ dq @ ''yt-dlp'' @ dq @
          ''. Available languages: none'') \<and>
   fst (processItem exampleWorld (exampleParams ''dQw4w9WgXcQ'' ''yt-dlp'') 0) =
     Thrown ''yt-dlp binary not found or failed to run. Please check the binaryPath parameter.''"
proof -
  have 1: "findBestSubtitle ([] :: nat TrackMap) [] ''yt-dlp'' True =
     \<lparr>selectedSubtitle = None, isManualSubtitle = False\<rparr>" by code_simp
  have 2: "findBestSubtitle ([] :: nat TrackMap) [] ''yt-dlp'' False =
     \<lparr>selectedSubtitle = None, isManualSubtitle = False\<rparr>" by code_simp
  have 3: "fst (tryBlock exampleWorld (exampleParams ''dQw4w9WgXcQ'' ''yt-dlp'') 0) =
     Inl (''No transcript found for this video with language '' @ dq @ ''yt-dlp'' @ dq @
          ''. Available languages: none'')" by code_simp
  have 4: "fst (processItem exampleWorld (exampleParams ''dQw4w9WgXcQ'' ''yt-dlp'') 0) =
     Thrown ''yt-dlp binary not found or failed to run. Please check the binaryPath parameter.''"
    by code_simp
  from 1 2 3 4 show ?thesis by simp
qed

end
